theory Spec2Isabelle
  imports Main
begin

section \<open>Marketplace controller: data model\<close>

text \<open>
  JSON values, as they travel in request bodies and are stored inside a project
  document. The nested \<open>project\<close> payload is an object, read as a finite map from
  property names to JSON values.
\<close>

datatype json =
    JNull
  | JBool bool
  | JNum int
  | JStr string
  | JArr "json list"
  | JObj "(string \<times> json) list"

type_synonym obj = "string \<rightharpoonup> json"

text \<open>
  A persisted project document of the \<open>Projects\<close> collection, with the fields the
  controller reads and writes. \<open>doc_id\<close> is the document's \<open>_id\<close> (an ObjectId, written
  as its string form); \<open>forked\<close> is absent on a document that was never cloned.
\<close>

record projectDoc =
  doc_id :: string
  project :: obj
  createdAt :: nat
  published :: bool
  comments :: json
  name :: string
  userId :: string
  username :: string
  forked :: "string option"

type_synonym collection = "projectDoc list"

text \<open>
  What a middleware reads from the request: \<open>req.body\<close> (\<open>_id\<close>, \<open>project\<close>,
  \<open>comments\<close>, \<open>name\<close>), \<open>req.cookies\<close> (\<open>ssid\<close>, \<open>username\<close>) and
  \<open>req.params.docId\<close>.
\<close>

record request =
  body_id :: string
  body_project :: obj
  body_comments :: json
  body_name :: string
  cookies_ssid :: string
  cookies_username :: string
  params_docId :: string

text \<open>
  What the middleware cannot compute by itself: the library predicate
  \<open>mongoose.isValidObjectId\<close>, the clock read by \<open>Date.now()\<close>, and the ObjectId the
  driver generates for a document created without an \<open>_id\<close>.
\<close>

record env =
  isValidObjectId :: "string \<Rightarrow> bool"
  now :: nat
  newObjectId :: string

text \<open>
  The argument of \<open>next(...)\<close> on an error path, named by the middleware that raised
  it. The schema of the \<open>Projects\<close> model is not among the sources: its casting and
  validation are left out, and a document is stored as the controller hands it over.
\<close>

datatype error =
    PublishProjectError
  | UnpublishProjectError
  | CloneProjectError

type_synonym outcome = "(error + projectDoc) \<times> collection"

section \<open>The collection operations the controller calls\<close>

text \<open>\<open>Projects.findOne({ _id })\<close>: the first document with that \<open>_id\<close>, or null.\<close>

definition findOne :: "string \<Rightarrow> collection \<Rightarrow> projectDoc option" where
  "findOne i db = find (\<lambda>d. doc_id d = i) db"

text \<open>
  \<open>Projects.create(doc)\<close>: the unique index on \<open>_id\<close> rejects a document whose \<open>_id\<close> is
  already in the collection (the promise rejects, the caller's \<open>catch\<close> runs); otherwise
  the document is appended.
\<close>

definition create :: "projectDoc \<Rightarrow> collection \<Rightarrow> collection option" where
  "create d db = (if doc_id d \<in> set (map doc_id db) then None else Some (db @ [d]))"

text \<open>Replacing the first document that satisfies a filter.\<close>

fun updateFirst :: "(projectDoc \<Rightarrow> bool) \<Rightarrow> (projectDoc \<Rightarrow> projectDoc) \<Rightarrow> collection \<Rightarrow> collection" where
  "updateFirst p f [] = []"
| "updateFirst p f (d # ds) = (if p d then f d # ds else d # updateFirst p f ds)"

section \<open>publishProject\<close>

text \<open>
  The copy of the request's \<open>project\<close> with its own \<open>published\<close> and \<open>_id\<close> properties
  deleted (\<open>noPub\<close> in the update branch, \<open>noId\<close> in the create branch).
\<close>

definition noPub :: "obj \<Rightarrow> obj" where
  "noPub p = (p(''published'' := None))(''_id'' := None)"

definition noId :: "obj \<Rightarrow> obj" where
  "noId p = (p(''_id'' := None))(''published'' := None)"

text \<open>The update document of \<open>findOneAndUpdate\<close>, applied to an existing document.\<close>

definition publishUpdate :: "env \<Rightarrow> request \<Rightarrow> projectDoc \<Rightarrow> projectDoc" where
  "publishUpdate e r d =
     d\<lparr> project := noPub (body_project r),
        createdAt := now e,
        published := True,
        comments := body_comments r,
        name := body_name r,
        userId := cookies_ssid r,
        username := cookies_username r \<rparr>"

text \<open>The document an upsert inserts when the filter \<open>{ _id }\<close> matches nothing.\<close>

definition publishUpsertDoc :: "env \<Rightarrow> request \<Rightarrow> projectDoc" where
  "publishUpsertDoc e r =
     \<lparr> doc_id = body_id r,
       project = noPub (body_project r),
       createdAt = now e,
       published = True,
       comments = body_comments r,
       name = body_name r,
       userId = cookies_ssid r,
       username = cookies_username r,
       forked = None \<rparr>"

text \<open>The document handed to \<open>Projects.create\<close> in the else branch.\<close>

definition publishCreateDoc :: "env \<Rightarrow> request \<Rightarrow> projectDoc" where
  "publishCreateDoc e r =
     \<lparr> doc_id = newObjectId e,
       project = noId (body_project r),
       createdAt = now e,
       published = True,
       comments = body_comments r,
       name = body_name r,
       userId = cookies_ssid r,
       username = cookies_username r,
       forked = None \<rparr>"

text \<open>
  \<open>publishProject\<close>: with a valid ObjectId in \<open>req.body._id\<close>,
  \<open>findOneAndUpdate({ _id }, ..., { upsert: true, new: true })\<close>; otherwise
  \<open>Projects.create\<close>. The result is the value left in \<open>res.locals.publishedProject\<close>
  (or the error passed to \<open>next\<close>) and the collection afterwards.
\<close>

definition publishProject :: "env \<Rightarrow> request \<Rightarrow> collection \<Rightarrow> outcome" where
  "publishProject e r db =
     (if isValidObjectId e (body_id r) then
        (case findOne (body_id r) db of
           Some d \<Rightarrow>
             (Inr (publishUpdate e r d),
              updateFirst (\<lambda>x. doc_id x = body_id r) (publishUpdate e r) db)
         | None \<Rightarrow> (Inr (publishUpsertDoc e r), db @ [publishUpsertDoc e r]))
      else
        (case create (publishCreateDoc e r) db of
           Some db' \<Rightarrow> (Inr (publishCreateDoc e r), db')
         | None \<Rightarrow> (Inl PublishProjectError, db)))"

section \<open>unpublishProject\<close>

text \<open>
  \<open>unpublishProject\<close>: \<open>findOneAndUpdate({ _id, userId }, { published: false },
  { new: true }, callback)\<close>. A filter value that is no ObjectId makes the query fail
  with a cast error (\<open>err\<close> in the callback); a filter that matches nothing gives
  \<open>result === null\<close>. Both take the callback's error branch.
\<close>

definition unpublishProject :: "env \<Rightarrow> request \<Rightarrow> collection \<Rightarrow> outcome" where
  "unpublishProject e r db =
     (if \<not> isValidObjectId e (body_id r) then (Inl UnpublishProjectError, db)
      else
        (case find (\<lambda>d. doc_id d = body_id r \<and> userId d = cookies_ssid r) db of
           None \<Rightarrow> (Inl UnpublishProjectError, db)
         | Some d \<Rightarrow>
             (Inr (d\<lparr>published := False\<rparr>),
              updateFirst (\<lambda>d. doc_id d = body_id r \<and> userId d = cookies_ssid r)
                (\<lambda>d. d\<lparr>published := False\<rparr>) db)))"

section \<open>cloneProject\<close>

text \<open>
  The assignments made to \<open>updatedProject\<close>, in the source's order; the deleted \<open>_id\<close> is
  replaced by the ObjectId that \<open>Projects.create\<close> generates.
\<close>

definition cloneDoc :: "env \<Rightarrow> request \<Rightarrow> projectDoc \<Rightarrow> projectDoc" where
  "cloneDoc e r original =
     (let u1 = original\<lparr>userId := cookies_ssid r\<rparr>;
          u2 = u1\<lparr>project := (project u1)(''forked'' \<mapsto> JBool True)\<rparr>;
          u3 = u2\<lparr>published := False\<rparr>;
          u4 = u3\<lparr>forked := Some (''Forked from '' @ username u3)\<rparr>;
          u5 = u4\<lparr>username := cookies_username r\<rparr>;
          u6 = u5\<lparr>doc_id := newObjectId e\<rparr>
      in u6\<lparr>createdAt := now e\<rparr>)"

text \<open>
  \<open>cloneProject\<close>: a \<open>docId\<close> that is no ObjectId makes \<open>findOne\<close> throw; a \<open>docId\<close> that
  names no document makes \<open>originalProject\<close> null and \<open>toObject\<close> throw; a rejected
  \<open>create\<close> throws. All three end in the \<open>catch\<close>.
\<close>

definition cloneProject :: "env \<Rightarrow> request \<Rightarrow> collection \<Rightarrow> outcome" where
  "cloneProject e r db =
     (if \<not> isValidObjectId e (params_docId r) then (Inl CloneProjectError, db)
      else
        (case findOne (params_docId r) db of
           None \<Rightarrow> (Inl CloneProjectError, db)
         | Some original \<Rightarrow>
             (case create (cloneDoc e r original) db of
                None \<Rightarrow> (Inl CloneProjectError, db)
              | Some db' \<Rightarrow> (Inr (cloneDoc e r original), db'))))"

section \<open>The panel item (HTMLItem)\<close>

text \<open>
  \<open>childData\<close>, the payload built by \<open>handleClick\<close>. \<open>childId\<close> is \<open>null\<close> there, and
  \<open>contextParam\<close> is the object \<open>{ allContext: [] }\<close>.
\<close>

record contextParam =
  allContext :: "json list"

record childData =
  type :: string
  typeId :: int
  childId :: "int option"
  contextParam :: contextParam

text \<open>The store action built by the action creator \<open>addChild\<close>.\<close>

datatype action = addChild childData

text \<open>
  What a handler does, in program order: \<open>dispatch(action)\<close> on the local store,
  \<open>emitEvent(name, roomCode, payload)\<close> on the relay, or a suspension that waits for
  the relay before going on.
\<close>

datatype effect =
    Dispatch action
  | EmitEvent string string childData
  | AwaitRelay

text \<open>
  \<open>roomCode\<close> as selected from the store: absent (\<open>None\<close>) or a string. The test
  \<open>if (roomCode)\<close> is JavaScript truthiness: an absent or empty room code fails it.
\<close>

definition truthy :: "string option \<Rightarrow> bool" where
  "truthy rc = (case rc of None \<Rightarrow> False | Some s \<Rightarrow> s \<noteq> [])"

definition mkChildData :: "int \<Rightarrow> childData" where
  "mkChildData i =
     \<lparr> type = ''HTML Element'',
       typeId = i,
       childId = None,
       contextParam = \<lparr> allContext = [] \<rparr> \<rparr>"

text \<open>\<open>handleClick\<close> of the item with id \<open>i\<close>, rendered while the room code is \<open>rc\<close>.\<close>

definition handleClick :: "int \<Rightarrow> string option \<Rightarrow> effect list" where
  "handleClick i rc =
     Dispatch (addChild (mkChildData i)) #
     (case rc of
        Some code \<Rightarrow>
          if truthy rc then [EmitEvent ''addChildAction'' code (mkChildData i)] else []
      | None \<Rightarrow> [])"

text \<open>
  The modal opened by \<open>deleteAllInstances(deleteID)\<close>: two list items. A click on an
  item runs the handler of its text first and then the handler of the item itself.
\<close>

datatype handler =
    HandleClick
  | DeleteAllInstances int
  | HandleDelete int
  | CloseModal

record listItem =
  primary :: string
  textOnClick :: handler
  itemOnClick :: handler

record modal =
  message :: string
  listItems :: "listItem list"
  opened :: bool

definition deleteAllInstances :: "int \<Rightarrow> modal" where
  "deleteAllInstances deleteID =
     \<lparr> message =
         ''Deleting this element will delete all instances of this element within the application.''
         @ [CHR 0x0A] @ ''Do you still wish to proceed?'',
       listItems =
         [ \<lparr> primary = ''Yes, delete all instances'',
             textOnClick = CloseModal,
             itemOnClick = HandleDelete deleteID \<rparr>,
           \<lparr> primary = ''No, do not delete element'',
             textOnClick = CloseModal,
             itemOnClick = CloseModal \<rparr> ],
       opened = True \<rparr>"

text \<open>
  The rendered grid item: the draggable \<open>div\<close>s it contains and the modal. A \<open>div\<close> shows
  either the icon looked up by name or the code icon, the element's name, and possibly
  a button. The element ids of the catalog are whole numbers, read as \<open>int\<close>.
\<close>

datatype iconRef = NamedIcon string | CodeIcon

record panelDiv =
  divIcon :: iconRef
  divLabel :: string
  divOnClick :: handler
  button :: "handler option"

record grid =
  divs :: "panelDiv list"
  shownModal :: "modal option"

definition HTMLItem :: "string \<Rightarrow> int \<Rightarrow> string \<Rightarrow> modal option \<Rightarrow> grid" where
  "HTMLItem nm i icon m =
     \<lparr> divs =
         (if i \<le> 20 then
            [\<lparr> divIcon = NamedIcon icon, divLabel = nm, divOnClick = HandleClick,
                button = None \<rparr>]
          else []) @
         (if i > 20 then
            [\<lparr> divIcon = CodeIcon, divLabel = nm, divOnClick = HandleClick,
                button = Some (DeleteAllInstances i) \<rparr>]
          else []),
       shownModal = m \<rparr>"

text \<open>
  The ids whose deletion the rendered item can trigger: a button opens the modal of
  \<open>deleteAllInstances\<close>, and a list item of that modal calls \<open>handleDelete\<close>.
\<close>

definition deletableIds :: "grid \<Rightarrow> int list" where
  "deletableIds g =
     concat (map (\<lambda>d. case button d of
                         Some (DeleteAllInstances j) \<Rightarrow>
                           concat (map (\<lambda>li. case itemOnClick li of
                                                 HandleDelete k \<Rightarrow> [k]
                                               | _ \<Rightarrow> [])
                                       (listItems (deleteAllInstances j)))
                       | _ \<Rightarrow> [])
                 (divs g))"

section \<open>The gestures of the panel item\<close>







section \<open>Sample data\<close>

definition isHex24 :: "string \<Rightarrow> bool" where
  "isHex24 s = (length s = 24 \<and> list_all (\<lambda>c. c \<in> set ''0123456789abcdef'') s)"

definition sampleEnv :: env where
  "sampleEnv =
     \<lparr> isValidObjectId = isHex24, now = 1700000000000,
       newObjectId = ''65a000000000000000000002'' \<rparr>"

definition laterEnv :: env where
  "laterEnv =
     \<lparr> isValidObjectId = isHex24, now = 1700000060000,
       newObjectId = ''65a000000000000000000003'' \<rparr>"

definition aliceDoc :: projectDoc where
  "aliceDoc =
     \<lparr> doc_id = ''65a000000000000000000001'',
       project = [''name'' \<mapsto> JStr ''shop'', ''rootComponents'' \<mapsto> JArr [JNum 1]],
       createdAt = 1690000000000,
       published = True,
       comments = JArr [],
       name = ''shop'',
       userId = ''alice-ssid'',
       username = ''alice'',
       forked = None \<rparr>"

definition bobRequest :: request where
  "bobRequest =
     \<lparr> body_id = ''65a000000000000000000001'',
       body_project = [''name'' \<mapsto> JStr ''taken'', ''_id'' \<mapsto> JStr ''65a000000000000000000001'',
                       ''published'' \<mapsto> JBool False],
       body_comments = JArr [],
       body_name = ''taken'',
       cookies_ssid = ''bob-ssid'',
       cookies_username = ''bob'',
       params_docId = ''65a000000000000000000001'' \<rparr>"

definition newRequest :: request where
  "newRequest =
     \<lparr> body_id = '''',
       body_project = [''name'' \<mapsto> JStr ''blog'', ''_id'' \<mapsto> JStr '''',
                       ''published'' \<mapsto> JBool False],
       body_comments = JArr [],
       body_name = ''blog'',
       cookies_ssid = ''bob-ssid'',
       cookies_username = ''bob'',
       params_docId = '''' \<rparr>"

definition againRequest :: request where
  "againRequest =
     \<lparr> body_id = ''65a000000000000000000002'',
       body_project = [''name'' \<mapsto> JStr ''blog v2'', ''_id'' \<mapsto> JStr ''65a000000000000000000002'',
                       ''published'' \<mapsto> JBool True],
       body_comments = JArr [],
       body_name = ''blog v2'',
       cookies_ssid = ''bob-ssid'',
       cookies_username = ''bob'',
       params_docId = '''' \<rparr>"


section \<open>Facts about the collection operations\<close>

lemma find_Some_mem: "find p xs = Some x \<Longrightarrow> x \<in> set xs \<and> p x"
  by (induction xs) (auto split: if_splits)

lemma find_None_all: "find p xs = None \<longleftrightarrow> (\<forall>x\<in>set xs. \<not> p x)"
  by (induction xs) auto

lemma find_append_last:
  "\<forall>d\<in>set db. \<not> p d \<Longrightarrow> p x \<Longrightarrow> find p (db @ [x]) = Some x"
  by (induction db) auto

lemma updateFirst_length: "length (updateFirst p f db) = length db"
  by (induction db) auto

lemma updateFirst_ids:
  "(\<And>d. doc_id (f d) = doc_id d) \<Longrightarrow> map doc_id (updateFirst p f db) = map doc_id db"
  by (induction db) auto

lemma updateFirst_append_last:
  "\<forall>d\<in>set db. \<not> p d \<Longrightarrow> p x \<Longrightarrow> updateFirst p f (db @ [x]) = db @ [f x]"
  by (induction db) auto

lemma updateFirst_mem: "find p db = Some d \<Longrightarrow> f d \<in> set (updateFirst p f db)"
  by (induction db) (auto split: if_splits)

lemma findOne_mem: "findOne i db = Some d \<Longrightarrow> d \<in> set db \<and> doc_id d = i"
  unfolding findOne_def by (rule find_Some_mem)

lemma findOne_None_fresh: "findOne i db = None \<Longrightarrow> i \<notin> set (map doc_id db)"
  unfolding findOne_def by (auto simp: find_None_all)

lemma fresh_not_matching:
  "i \<notin> set (map doc_id db) \<Longrightarrow> \<forall>d\<in>set db. \<not> (doc_id d = i)"
  by auto

lemma isHex24_sample_ids:
  "isHex24 ''65a000000000000000000001''" "isHex24 ''65a000000000000000000002''"
  "\<not> isHex24 ''''"
  by (simp_all add: isHex24_def)

text \<open>
  The unique index on \<open>_id\<close> is kept by the three middlewares: a collection whose
  documents have pairwise different \<open>_id\<close>s stays so.
\<close>

lemma publishProject_distinct:
  assumes "distinct (map doc_id db)"
  shows "distinct (map doc_id (snd (publishProject e r db)))"
proof (cases "isValidObjectId e (body_id r)")
  case True
  show ?thesis
  proof (cases "findOne (body_id r) db")
    case None
    with True assms findOne_None_fresh [OF None] show ?thesis
      by (simp add: publishProject_def publishUpsertDoc_def)
  next
    case (Some d)
    have "map doc_id (updateFirst (\<lambda>x. doc_id x = body_id r) (publishUpdate e r) db)
            = map doc_id db"
      by (rule updateFirst_ids) (simp add: publishUpdate_def)
    with True Some assms show ?thesis
      by (simp add: publishProject_def)
  qed
next
  case False
  with assms show ?thesis
    by (simp add: publishProject_def create_def)
qed

lemma unpublishProject_distinct:
  assumes "distinct (map doc_id db)"
  shows "distinct (map doc_id (snd (unpublishProject e r db)))"
proof -
  have "map doc_id (updateFirst (\<lambda>d. doc_id d = body_id r \<and> userId d = cookies_ssid r)
                      (\<lambda>d. d\<lparr>published := False\<rparr>) db) = map doc_id db"
    by (rule updateFirst_ids) simp
  with assms show ?thesis
    by (simp add: unpublishProject_def split: option.splits)
qed

lemma cloneProject_distinct:
  assumes "distinct (map doc_id db)"
  shows "distinct (map doc_id (snd (cloneProject e r db)))"
  using assms
  by (auto simp: cloneProject_def create_def split: option.splits if_splits)

section \<open>Cloning\<close>

text \<open>
  C1, as stated, fails: the claim lets only \<open>_id\<close>, \<open>published\<close> and \<open>forked\<close> differ
  from the source. When bob clones alice's project, the clone is stored, and its
  \<open>userId\<close>, \<open>username\<close>, \<open>createdAt\<close> and nested \<open>project\<close> differ from the source's.
\<close>

theorem cloneProject_other_fields_counterexample:
  "findOne (params_docId bobRequest) [aliceDoc] = Some aliceDoc
   \<and> cloneProject sampleEnv bobRequest [aliceDoc]
       = (Inr (cloneDoc sampleEnv bobRequest aliceDoc),
          [aliceDoc, cloneDoc sampleEnv bobRequest aliceDoc])
   \<and> userId (cloneDoc sampleEnv bobRequest aliceDoc) \<noteq> userId aliceDoc
   \<and> username (cloneDoc sampleEnv bobRequest aliceDoc) \<noteq> username aliceDoc
   \<and> createdAt (cloneDoc sampleEnv bobRequest aliceDoc) \<noteq> createdAt aliceDoc
   \<and> project (cloneDoc sampleEnv bobRequest aliceDoc) ''forked''
       \<noteq> project aliceDoc ''forked''"
  by (simp add: cloneProject_def create_def findOne_def cloneDoc_def Let_def
        sampleEnv_def bobRequest_def aliceDoc_def isHex24_def)

text \<open>
  C1, amended: cloning an existing source project (with the generated ObjectId not yet
  in the collection) succeeds and appends one document, the clone. The clone has a new
  \<open>_id\<close>, \<open>published = false\<close> and \<open>forked\<close> set to "Forked from" the source's
  username; its \<open>userId\<close> and \<open>username\<close> are the requester's, its \<open>createdAt\<close> is the
  time of the clone, its nested \<open>project\<close> is the source's with \<open>forked\<close> set to true;
  \<open>name\<close> and \<open>comments\<close> equal the source's.
\<close>

theorem cloneProject_clone_fields:
  assumes "isValidObjectId e (params_docId r)"
    and "findOne (params_docId r) db = Some src"
    and "newObjectId e \<notin> set (map doc_id db)"
  shows "\<exists>c. cloneProject e r db = (Inr c, db @ [c])
            \<and> doc_id c \<notin> set (map doc_id db) \<and> doc_id c \<noteq> doc_id src
            \<and> published c = False
            \<and> forked c = Some (''Forked from '' @ username src)
            \<and> userId c = cookies_ssid r
            \<and> username c = cookies_username r
            \<and> createdAt c = now e
            \<and> project c = (project src)(''forked'' \<mapsto> JBool True)
            \<and> name c = name src
            \<and> comments c = comments src"
proof -
  from assms(2) have "src \<in> set db"
    by (simp add: findOne_mem)
  then have "doc_id src \<in> set (map doc_id db)" by simp
  with assms(3) have ne: "newObjectId e \<noteq> doc_id src" by auto
  show ?thesis
    using assms ne by (simp add: cloneProject_def create_def cloneDoc_def Let_def)
qed

theorem cloneProject_clone_fields_witness:
  "isValidObjectId sampleEnv (params_docId bobRequest)
   \<and> findOne (params_docId bobRequest) [aliceDoc] = Some aliceDoc
   \<and> newObjectId sampleEnv \<notin> set (map doc_id [aliceDoc])
   \<and> (\<exists>c. cloneProject sampleEnv bobRequest [aliceDoc] = (Inr c, [aliceDoc] @ [c])
          \<and> doc_id c \<notin> set (map doc_id [aliceDoc]) \<and> doc_id c \<noteq> doc_id aliceDoc
          \<and> published c = False
          \<and> forked c = Some (''Forked from '' @ username aliceDoc)
          \<and> userId c = cookies_ssid bobRequest
          \<and> username c = cookies_username bobRequest
          \<and> createdAt c = now sampleEnv
          \<and> project c = (project aliceDoc)(''forked'' \<mapsto> JBool True)
          \<and> name c = name aliceDoc
          \<and> comments c = comments aliceDoc)"
proof -
  have h1: "isValidObjectId sampleEnv (params_docId bobRequest)"
    by (simp add: sampleEnv_def bobRequest_def isHex24_def)
  have h2: "findOne (params_docId bobRequest) [aliceDoc] = Some aliceDoc"
    by (simp add: findOne_def bobRequest_def aliceDoc_def)
  have h3: "newObjectId sampleEnv \<notin> set (map doc_id [aliceDoc])"
    by (simp add: sampleEnv_def aliceDoc_def)
  from h1 h2 h3 cloneProject_clone_fields [OF h1 h2 h3] show ?thesis
    by blast
qed

section \<open>Publishing\<close>

text \<open>
  C2: the claim asks that publishing over a project owned by someone else fails.
  \<open>publishProject\<close> filters on \<open>_id\<close> alone: bob's request naming alice's project
  succeeds, replaces the stored project and makes bob its owner.
\<close>

theorem publishProject_overwrites_foreign_project:
  "userId aliceDoc = ''alice-ssid''
   \<and> cookies_ssid bobRequest = ''bob-ssid''
   \<and> body_id bobRequest = doc_id aliceDoc
   \<and> publishProject sampleEnv bobRequest [aliceDoc]
       = (Inr (aliceDoc\<lparr> project := [''name'' \<mapsto> JStr ''taken''],
                          createdAt := 1700000000000, name := ''taken'',
                          userId := ''bob-ssid'', username := ''bob'' \<rparr>),
          [aliceDoc\<lparr> project := [''name'' \<mapsto> JStr ''taken''],
                     createdAt := 1700000000000, name := ''taken'',
                     userId := ''bob-ssid'', username := ''bob'' \<rparr>])"
  by (simp add: publishProject_def sampleEnv_def bobRequest_def aliceDoc_def isHex24_def
        findOne_def publishUpdate_def noPub_def)

lemma publishProject_update_ignores_owner:
  assumes "isValidObjectId e (body_id r)" and "findOne (body_id r) db = Some d"
  shows "fst (publishProject e r db) = Inr (publishUpdate e r d)
         \<and> userId (publishUpdate e r d) = cookies_ssid r"
  using assms by (simp add: publishProject_def publishUpdate_def)

lemma noId_apply:
  "noId p = (\<lambda>k. if k = ''_id'' \<or> k = ''published'' then None else p k)"
  by (rule ext) (simp add: noId_def)

lemma noPub_apply:
  "noPub p = (\<lambda>k. if k = ''_id'' \<or> k = ''published'' then None else p k)"
  by (rule ext) (simp add: noPub_def)

text \<open>
  C5: a publish request whose \<open>_id\<close> is no valid ObjectId (and for which the driver
  generates an ObjectId not yet in the collection) appends one new document: it has the
  generated \<open>_id\<close>, \<open>published = true\<close>, and the first request's project, comments,
  name and session identity. A later publish request carrying that document's \<open>_id\<close>
  replaces that same document, in place, by one with the same \<open>_id\<close>,
  \<open>published = true\<close>, and the second request's project, comments, name and session
  identity, stamped with the second request's time: the collection is as long as after
  the first request and every other document is untouched.
\<close>

theorem publishProject_create_then_update:
  assumes "\<not> isValidObjectId e1 (body_id r1)"
    and "newObjectId e1 \<notin> set (map doc_id db)"
    and "body_id r2 = newObjectId e1"
    and "isValidObjectId e2 (body_id r2)"
  shows "\<exists>d1 d2. publishProject e1 r1 db = (Inr d1, db @ [d1])
               \<and> doc_id d1 = newObjectId e1 \<and> published d1
               \<and> d1 = \<lparr> doc_id = newObjectId e1,
                         project = (\<lambda>k. if k = ''_id'' \<or> k = ''published'' then None
                                         else body_project r1 k),
                         createdAt = now e1,
                         published = True,
                         comments = body_comments r1,
                         name = body_name r1,
                         userId = cookies_ssid r1,
                         username = cookies_username r1,
                         forked = None \<rparr>
               \<and> publishProject e2 r2 (db @ [d1]) = (Inr d2, db @ [d2])
               \<and> doc_id d2 = doc_id d1 \<and> published d2
               \<and> d2 = \<lparr> doc_id = newObjectId e1,
                         project = (\<lambda>k. if k = ''_id'' \<or> k = ''published'' then None
                                         else body_project r2 k),
                         createdAt = now e2,
                         published = True,
                         comments = body_comments r2,
                         name = body_name r2,
                         userId = cookies_ssid r2,
                         username = cookies_username r2,
                         forked = None \<rparr>
               \<and> length (db @ [d2]) = length (db @ [d1])"
proof -
  let ?d1 = "publishCreateDoc e1 r1"
  let ?d2 = "publishUpdate e2 r2 ?d1"
  let ?p = "\<lambda>x. doc_id x = body_id r2"
  have first: "publishProject e1 r1 db = (Inr ?d1, db @ [?d1])"
    using assms(1,2) by (simp add: publishProject_def create_def publishCreateDoc_def)
  have id1: "doc_id ?d1 = newObjectId e1"
    by (simp add: publishCreateDoc_def)
  have none: "\<forall>d\<in>set db. \<not> ?p d"
    unfolding assms(3) using assms(2) by (rule fresh_not_matching)
  have hit: "?p ?d1"
    using assms(3) id1 by simp
  have found: "findOne (body_id r2) (db @ [?d1]) = Some ?d1"
    unfolding findOne_def using none hit by (rule find_append_last)
  have upd: "updateFirst ?p (publishUpdate e2 r2) (db @ [?d1]) = db @ [?d2]"
    using none hit by (rule updateFirst_append_last)
  have second: "publishProject e2 r2 (db @ [?d1]) = (Inr ?d2, db @ [?d2])"
    using assms(4) found upd by (simp add: publishProject_def)
  have flags: "doc_id ?d2 = doc_id ?d1" "published ?d2" "published ?d1"
    by (simp_all add: publishUpdate_def publishCreateDoc_def)
  have rec1: "?d1 = \<lparr> doc_id = newObjectId e1,
                       project = (\<lambda>k. if k = ''_id'' \<or> k = ''published'' then None
                                       else body_project r1 k),
                       createdAt = now e1,
                       published = True,
                       comments = body_comments r1,
                       name = body_name r1,
                       userId = cookies_ssid r1,
                       username = cookies_username r1,
                       forked = None \<rparr>"
    by (simp add: publishCreateDoc_def noId_apply)
  have rec2: "?d2 = \<lparr> doc_id = newObjectId e1,
                       project = (\<lambda>k. if k = ''_id'' \<or> k = ''published'' then None
                                       else body_project r2 k),
                       createdAt = now e2,
                       published = True,
                       comments = body_comments r2,
                       name = body_name r2,
                       userId = cookies_ssid r2,
                       username = cookies_username r2,
                       forked = None \<rparr>"
    by (simp add: publishUpdate_def publishCreateDoc_def noPub_apply)
  have len: "length (db @ [?d2]) = length (db @ [?d1])"
    by simp
  from first id1 flags(3) rec1 second flags(1,2) rec2 len show ?thesis
    by blast
qed

theorem publishProject_create_then_update_witness:
  "\<not> isValidObjectId sampleEnv (body_id newRequest)
   \<and> newObjectId sampleEnv \<notin> set (map doc_id [aliceDoc])
   \<and> body_id againRequest = newObjectId sampleEnv
   \<and> isValidObjectId laterEnv (body_id againRequest)
   \<and> (\<exists>d1 d2. publishProject sampleEnv newRequest [aliceDoc] = (Inr d1, [aliceDoc] @ [d1])
          \<and> doc_id d1 = newObjectId sampleEnv \<and> published d1
          \<and> name d1 = ''blog'' \<and> project d1 ''name'' = Some (JStr ''blog'')
          \<and> createdAt d1 = 1700000000000
          \<and> publishProject laterEnv againRequest ([aliceDoc] @ [d1]) = (Inr d2, [aliceDoc] @ [d2])
          \<and> doc_id d2 = doc_id d1 \<and> published d2
          \<and> name d2 = ''blog v2'' \<and> project d2 ''name'' = Some (JStr ''blog v2'')
          \<and> project d2 ''_id'' = None \<and> project d2 ''published'' = None
          \<and> createdAt d2 = 1700000060000
          \<and> length ([aliceDoc] @ [d2]) = length ([aliceDoc] @ [d1]))"
proof -
  have h1: "\<not> isValidObjectId sampleEnv (body_id newRequest)"
    by (simp add: sampleEnv_def newRequest_def isHex24_def)
  have h2: "newObjectId sampleEnv \<notin> set (map doc_id [aliceDoc])"
    by (simp add: sampleEnv_def aliceDoc_def)
  have h3: "body_id againRequest = newObjectId sampleEnv"
    by (simp add: sampleEnv_def againRequest_def)
  have h4: "isValidObjectId laterEnv (body_id againRequest)"
    by (simp add: laterEnv_def againRequest_def isHex24_def)
  from publishProject_create_then_update [OF h1 h2 h3 h4]
  obtain d1 d2 where
    p1: "publishProject sampleEnv newRequest ([aliceDoc]) = (Inr d1, [aliceDoc] @ [d1])"
    and i1: "doc_id d1 = newObjectId sampleEnv" and b1: "published d1"
    and r1: "d1 = \<lparr> doc_id = newObjectId sampleEnv,
                     project = (\<lambda>k. if k = ''_id'' \<or> k = ''published'' then None
                                     else body_project newRequest k),
                     createdAt = now sampleEnv,
                     published = True,
                     comments = body_comments newRequest,
                     name = body_name newRequest,
                     userId = cookies_ssid newRequest,
                     username = cookies_username newRequest,
                     forked = None \<rparr>"
    and p2: "publishProject laterEnv againRequest ([aliceDoc] @ [d1])
               = (Inr d2, [aliceDoc] @ [d2])"
    and i2: "doc_id d2 = doc_id d1" and b2: "published d2"
    and r2: "d2 = \<lparr> doc_id = newObjectId sampleEnv,
                     project = (\<lambda>k. if k = ''_id'' \<or> k = ''published'' then None
                                     else body_project againRequest k),
                     createdAt = now laterEnv,
                     published = True,
                     comments = body_comments againRequest,
                     name = body_name againRequest,
                     userId = cookies_ssid againRequest,
                     username = cookies_username againRequest,
                     forked = None \<rparr>"
    and len: "length ([aliceDoc] @ [d2]) = length ([aliceDoc] @ [d1])"
    by blast
  have v1: "name d1 = ''blog''" "project d1 ''name'' = Some (JStr ''blog'')"
    "createdAt d1 = 1700000000000"
    unfolding r1 by (simp_all add: newRequest_def sampleEnv_def)
  have v2: "name d2 = ''blog v2''" "project d2 ''name'' = Some (JStr ''blog v2'')"
    "project d2 ''_id'' = None" "project d2 ''published'' = None"
    "createdAt d2 = 1700000060000"
    unfolding r2 by (simp_all add: againRequest_def laterEnv_def)
  from h1 h2 h3 h4 p1 i1 b1 v1 p2 i2 b2 v2 len show ?thesis
    by blast
qed

text \<open>
  C10: whenever \<open>publishProject\<close> succeeds, in the update branch, the upsert and the
  create branch alike, the document it returns is in the collection afterwards, and
  that document's nested \<open>project\<close> has neither an \<open>_id\<close> nor a \<open>published\<close> property;
  every other property is the request's.
\<close>

theorem publishProject_strips_inner_fields:
  assumes "publishProject e r db = (Inr d, db')"
  shows "d \<in> set db'
         \<and> project d ''_id'' = None \<and> project d ''published'' = None
         \<and> (\<forall>k. k \<noteq> ''_id'' \<and> k \<noteq> ''published'' \<longrightarrow> project d k = body_project r k)"
proof (cases "isValidObjectId e (body_id r)")
  case True
  show ?thesis
  proof (cases "findOne (body_id r) db")
    case None
    with True assms show ?thesis
      by (auto simp: publishProject_def publishUpsertDoc_def noPub_def)
  next
    case (Some d0)
    then have "publishUpdate e r d0
                 \<in> set (updateFirst (\<lambda>x. doc_id x = body_id r) (publishUpdate e r) db)"
      unfolding findOne_def by (rule updateFirst_mem)
    with True Some assms show ?thesis
      by (auto simp: publishProject_def publishUpdate_def noPub_def)
  qed
next
  case False
  with assms show ?thesis
    by (auto simp: publishProject_def create_def publishCreateDoc_def noId_def
          split: if_splits)
qed

theorem publishProject_strips_inner_fields_witness:
  "(\<exists>d db'. publishProject sampleEnv bobRequest [aliceDoc] = (Inr d, db')
        \<and> body_project bobRequest ''_id'' \<noteq> None
        \<and> body_project bobRequest ''published'' \<noteq> None
        \<and> d \<in> set db' \<and> project d ''_id'' = None \<and> project d ''published'' = None
        \<and> project d ''name'' = Some (JStr ''taken''))
   \<and> (\<exists>d db'. publishProject sampleEnv newRequest [aliceDoc] = (Inr d, db')
        \<and> body_project newRequest ''_id'' \<noteq> None
        \<and> body_project newRequest ''published'' \<noteq> None
        \<and> d \<in> set db' \<and> project d ''_id'' = None \<and> project d ''published'' = None
        \<and> project d ''name'' = Some (JStr ''blog''))"
proof -
  let ?u = "publishUpdate sampleEnv bobRequest aliceDoc"
  let ?c = "publishCreateDoc sampleEnv newRequest"
  have u: "publishProject sampleEnv bobRequest [aliceDoc] = (Inr ?u, [?u])"
    by (simp add: publishProject_def findOne_def sampleEnv_def bobRequest_def
          aliceDoc_def isHex24_def)
  have c: "publishProject sampleEnv newRequest [aliceDoc] = (Inr ?c, [aliceDoc, ?c])"
    by (simp add: publishProject_def create_def publishCreateDoc_def sampleEnv_def
          newRequest_def aliceDoc_def isHex24_def)
  have bu: "body_project bobRequest ''_id'' \<noteq> None"
    "body_project bobRequest ''published'' \<noteq> None"
    "body_project bobRequest ''name'' = Some (JStr ''taken'')"
    by (simp_all add: bobRequest_def)
  have bc: "body_project newRequest ''_id'' \<noteq> None"
    "body_project newRequest ''published'' \<noteq> None"
    "body_project newRequest ''name'' = Some (JStr ''blog'')"
    by (simp_all add: newRequest_def)
  from publishProject_strips_inner_fields [OF u] bu
  have "?u \<in> set [?u] \<and> project ?u ''_id'' = None \<and> project ?u ''published'' = None
        \<and> project ?u ''name'' = Some (JStr ''taken'')"
    by simp
  moreover from publishProject_strips_inner_fields [OF c] bc
  have "?c \<in> set [aliceDoc, ?c] \<and> project ?c ''_id'' = None
        \<and> project ?c ''published'' = None \<and> project ?c ''name'' = Some (JStr ''blog'')"
    by simp
  ultimately show ?thesis
    using u c bu bc by blast
qed

section \<open>Unpublishing\<close>

text \<open>
  C3: when the project named by the request's \<open>_id\<close> is owned by another user than the
  one in the session cookie, \<open>unpublishProject\<close> takes its error path and the
  collection, hence the project's \<open>published\<close> flag, is what it was.
\<close>

theorem unpublishProject_foreign_project_fails:
  assumes "distinct (map doc_id db)"
    and "d \<in> set db"
    and "doc_id d = body_id r"
    and "userId d \<noteq> cookies_ssid r"
  shows "unpublishProject e r db = (Inl UnpublishProjectError, db)"
proof -
  have "\<not> (doc_id x = body_id r \<and> userId x = cookies_ssid r)" if x: "x \<in> set db" for x
  proof
    assume h: "doc_id x = body_id r \<and> userId x = cookies_ssid r"
    with assms(1,2,3) x have "x = d"
      by (metis distinct_map inj_onD)
    with h assms(4) show False by simp
  qed
  then have "find (\<lambda>d. doc_id d = body_id r \<and> userId d = cookies_ssid r) db = None"
    by (simp add: find_None_all)
  then show ?thesis by (simp add: unpublishProject_def)
qed

theorem unpublishProject_foreign_project_fails_witness:
  "distinct (map doc_id [aliceDoc])
   \<and> aliceDoc \<in> set [aliceDoc]
   \<and> doc_id aliceDoc = body_id bobRequest
   \<and> userId aliceDoc \<noteq> cookies_ssid bobRequest
   \<and> published aliceDoc
   \<and> unpublishProject sampleEnv bobRequest [aliceDoc] = (Inl UnpublishProjectError, [aliceDoc])"
proof -
  have h1: "distinct (map doc_id [aliceDoc])" by simp
  have h2: "aliceDoc \<in> set [aliceDoc]" by simp
  have h3: "doc_id aliceDoc = body_id bobRequest"
    by (simp add: aliceDoc_def bobRequest_def)
  have h4: "userId aliceDoc \<noteq> cookies_ssid bobRequest"
    by (simp add: aliceDoc_def bobRequest_def)
  have h5: "published aliceDoc" by (simp add: aliceDoc_def)
  from h1 h2 h3 h4 h5 unpublishProject_foreign_project_fails [OF h1 h2 h3 h4, of sampleEnv]
  show ?thesis by simp
qed

section \<open>The click handler and the relay\<close>



text \<open>
  C4: an event reaches the relay from \<open>handleClick\<close> only when the room code is
  non-null (and then it is sent to that room); with the room code absent the handler
  forwards nothing to the relay.
\<close>

theorem handleClick_emits_only_in_room:
  "(EmitEvent n c p \<in> set (handleClick i rc) \<longrightarrow> rc \<noteq> None \<and> rc = Some c)
   \<and> (rc = None \<longrightarrow> (\<forall>x\<in>set (handleClick i rc). \<forall>n' c' p'. x \<noteq> EmitEvent n' c' p'))"
  by (cases rc) (auto simp: handleClick_def truthy_def split: if_splits)

theorem handleClick_emits_only_in_room_witness:
  "EmitEvent ''addChildAction'' ''room-7'' (mkChildData 3)
     \<in> set (handleClick 3 (Some ''room-7''))
   \<and> Some ''room-7'' \<noteq> (None :: string option)
   \<and> \<not> (\<exists>x\<in>set (handleClick 3 None). \<exists>n' c' p'. x = EmitEvent n' c' p')
   \<and> handleClick 3 None = [Dispatch (addChild (mkChildData 3))]"
proof -
  have h: "EmitEvent ''addChildAction'' ''room-7'' (mkChildData 3)
             \<in> set (handleClick 3 (Some ''room-7''))"
    by (simp add: handleClick_def truthy_def)
  have g: "handleClick 3 None = [Dispatch (addChild (mkChildData 3))]"
    by (simp add: handleClick_def)
  from handleClick_emits_only_in_room
         [of "''addChildAction''" "''room-7''" "mkChildData 3" 3 "Some ''room-7''"]
       handleClick_emits_only_in_room
         [of "''addChildAction''" "''room-7''" "mkChildData 3" 3 None] h g
  show ?thesis by simp
qed










text \<open>
  C9: while a room is active, \<open>handleClick\<close> dispatches and emits one and the same
  payload: type \<open>HTML Element\<close>, the item's id as \<open>typeId\<close>, a null \<open>childId\<close> and a
  \<open>contextParam\<close> with an empty \<open>allContext\<close>.
\<close>

theorem handleClick_emits_dispatched_payload:
  assumes "rc = Some code" and "code \<noteq> []"
  shows "\<exists>p. handleClick i rc = [Dispatch (addChild p), EmitEvent ''addChildAction'' code p]
            \<and> type p = ''HTML Element'' \<and> typeId p = i \<and> childId p = None
            \<and> contextParam p = \<lparr> allContext = [] \<rparr>"
  using assms
  by (intro exI [of _ "mkChildData i"]) (simp add: handleClick_def truthy_def mkChildData_def)

theorem handleClick_emits_dispatched_payload_witness:
  "Some ''room-7'' = Some ''room-7'' \<and> ''room-7'' \<noteq> []
   \<and> (\<exists>p. handleClick 3 (Some ''room-7'')
            = [Dispatch (addChild p), EmitEvent ''addChildAction'' ''room-7'' p]
          \<and> type p = ''HTML Element'' \<and> typeId p = 3 \<and> childId p = None
          \<and> contextParam p = \<lparr> allContext = [] \<rparr>)"
proof -
  have h1: "Some ''room-7'' = Some ''room-7''" by simp
  have h2: "''room-7'' \<noteq> []" by simp
  from handleClick_emits_dispatched_payload [OF h1 h2, of 3] show ?thesis
    by simp
qed

section \<open>The delete affordance\<close>

text \<open>
  C7: the rendered item offers a delete button, and through it the deletion of all
  instances of its element, exactly when its id is above 20; with an id of 20 or less
  it offers none.
\<close>

theorem HTMLItem_deletable_iff_custom:
  "((\<exists>d\<in>set (divs (HTMLItem nm i icon m)). button d \<noteq> None) \<longleftrightarrow> 20 < i)
   \<and> (i \<in> set (deletableIds (HTMLItem nm i icon m)) \<longleftrightarrow> 20 < i)
   \<and> (i \<le> 20 \<longrightarrow> deletableIds (HTMLItem nm i icon m) = [])"
  by (simp add: HTMLItem_def deletableIds_def deleteAllInstances_def)

theorem HTMLItem_deletable_iff_custom_witness:
  "(\<exists>d\<in>set (divs (HTMLItem ''widget'' 21 ''Code'' None)). button d \<noteq> None)
   \<and> 21 \<in> set (deletableIds (HTMLItem ''widget'' 21 ''Code'' None))
   \<and> \<not> (\<exists>d\<in>set (divs (HTMLItem ''Div'' 20 ''Window'' None)). button d \<noteq> None)
   \<and> deletableIds (HTMLItem ''Div'' 20 ''Window'' None) = []"
  using HTMLItem_deletable_iff_custom [of "''widget''" 21 "''Code''" None]
        HTMLItem_deletable_iff_custom [of "''Div''" 20 "''Window''" None]
  by simp

end
